theory Spec2Isabelle
  imports Main
begin

section \<open>Documents and collections\<close>

text \<open>
  The routes of \<^verbatim>\<open>requestRescheduleRoute.ts\<close> and \<^verbatim>\<open>ExpertRoutes.ts\<close> work on
  three Mongoose collections: bookings, experts and rescheduling requests, and
  populate references into the date and slot collections. Object identifiers travel
  through the HTTP layer as strings.
\<close>

type_synonym oid = string

text \<open>
  Modelled from the spec: the enum \<^verbatim>\<open>Status\<close> of \<^verbatim>\<open>../models/BookingModel\<close> is not
  among the sources; the route only uses \<^verbatim>\<open>Status.RESCHEDULED\<close>, the spec lists
  "PENDING, CONFIRMED, RESCHEDULED, CANCELLED".
\<close>

datatype Status = PENDING | CONFIRMED | RESCHEDULED | CANCELLED

text \<open>
  A booking document, with the three fields the routes assign. The document's
  \<^verbatim>\<open>_id\<close> is the key under which the collection holds it.
\<close>

record Booking =
  dateId :: oid
  slotId :: oid
  status :: Status

record Expert =
  username :: string

text \<open>Date and slot documents are only handed through by \<^verbatim>\<open>populate\<close>.\<close>

typedecl DateDoc
typedecl SlotDoc

text \<open>
  The bodies of \<^verbatim>\<open>POST /reschedule\<close> and \<^verbatim>\<open>POST /handle-Reschedule\<close> carry the
  requested date and slot under the same field names; the two records extend a common
  one so that they share them. \<^verbatim>\<open>POST /reschedule\<close> names the booking
  \<^verbatim>\<open>Current_Booking_id\<close>, \<^verbatim>\<open>POST /handle-Reschedule\<close> names it \<^verbatim>\<open>CurrentBookingId\<close>.
\<close>

record requested =
  RequestedDateId :: oid
  RequestedSlotId :: oid

record reschedule_body = requested +
  Current_Booking_id :: oid

record handle_body = requested +
  CurrentBookingId :: oid
  action :: string

text \<open>
  A stored rescheduling request is a document: it holds the keys that its creator
  wrote, and a query filter or a \<^verbatim>\<open>populate\<close> reads a key that may be missing.
  \<^verbatim>\<open>POST /reschedule\<close> writes the booking under the key \<^verbatim>\<open>Current_Booking_id\<close>; the
  decision and the list routes read the key \<^verbatim>\<open>CurrentBookingId\<close>, and the by-expert
  query filters on the key \<^verbatim>\<open>expertId\<close>. The Mongoose schemas are not among the
  sources: the keys are kept as the routes write and read them.
\<close>

type_synonym ReschedulingRequest = "string \<rightharpoonup> oid"

record db =
  bookings :: "oid \<rightharpoonup> Booking"
  requests :: "ReschedulingRequest list"
  experts :: "oid \<rightharpoonup> Expert"
  dates :: "oid \<rightharpoonup> DateDoc"
  slots :: "oid \<rightharpoonup> SlotDoc"

section \<open>The environment of the routes\<close>

text \<open>
  Every \<^verbatim>\<open>await\<close> on the storage layer may reject; the handlers catch the exception
  and answer 500. Which call rejects in which state of the database is a parameter.
\<close>

datatype db_call =
    Booking_findById oid
  | Booking_save oid Booking
  | ReschedulingRequest_save ReschedulingRequest
  | ReschedulingRequest_deleteOne oid
  | ReschedulingRequest_find oid
  | Expert_findById oid

type_synonym ZodIssue = "string list \<times> string"

text \<open>
  The Zod schema \<^verbatim>\<open>reschedulingRequestSchemaZod\<close> and the library function
  \<^verbatim>\<open>mongoose.Types.ObjectId.isValid\<close> are not among the sources: they are parameters.
  \<^verbatim>\<open>parse\<close> is synchronous and sees the request body only; it returns the validated
  data or throws a \<^verbatim>\<open>ZodError\<close> with its issues.
\<close>

record env =
  reschedulingRequestSchemaZod :: "reschedule_body \<Rightarrow> ZodIssue list + reschedule_body"
  ObjectId_isValid :: "oid \<Rightarrow> bool"
  rejects :: "db_call \<Rightarrow> db \<Rightarrow> bool"

section \<open>Responses\<close>

text \<open>The entries of the list that the by-expert query returns, after \<^verbatim>\<open>populate\<close>.\<close>

record formatted =
  currentBookingId :: "Booking option"
  requestedDateId :: "DateDoc option"
  requestedSlotId :: "SlotDoc option"
  expertName :: string

datatype json =
    Message string
  | Errors "ZodIssue list"
  | MessageError string
  | MessageBooking string Booking
  | MessageList string "formatted list"

text \<open>\<^verbatim>\<open>res.status(code).json(body)\<close>\<close>

type_synonym response = "nat \<times> json"

definition internal_server_error :: response where
  "internal_server_error = (500, MessageError ''Internal server error'')"

section \<open>Collection operations\<close>

text \<open>\<^verbatim>\<open>deleteOne(filter)\<close> removes the first document that matches, if there is one.\<close>

fun deleteOne :: "('a \<Rightarrow> bool) \<Rightarrow> 'a list \<Rightarrow> 'a list" where
  "deleteOne P [] = []"
| "deleteOne P (x # xs) = (if P x then xs else x # deleteOne P xs)"

text \<open>The filter \<^verbatim>\<open>{ CurrentBookingId: CurrentBookingId }\<close> of the decision route.\<close>

definition references :: "oid \<Rightarrow> ReschedulingRequest \<Rightarrow> bool" where
  "references b r \<longleftrightarrow> r ''CurrentBookingId'' = Some b"

text \<open>
  A document names a booking under one of the two keys: the one that
  \<^verbatim>\<open>POST /reschedule\<close> writes or the one that the other routes read.
\<close>

definition names_booking :: "oid \<Rightarrow> ReschedulingRequest \<Rightarrow> bool" where
  "names_booking b r \<longleftrightarrow> r ''Current_Booking_id'' = Some b \<or> r ''CurrentBookingId'' = Some b"

text \<open>\<^verbatim>\<open>ReschedulingRequest.find({ expertId: ExpertId })\<close>\<close>

definition expertId :: "ReschedulingRequest \<Rightarrow> oid option" where
  "expertId r = r ''expertId''"

definition find_expertId :: "oid \<Rightarrow> ReschedulingRequest list \<Rightarrow> ReschedulingRequest list" where
  "find_expertId e rs = filter (\<lambda>r. expertId r = Some e) rs"

section \<open>POST /reschedule\<close>

text \<open>
  The handler parses the body, builds the document from the validated data, with the
  three keys it writes, and saves it. It reads neither the bookings nor the stored
  requests.
\<close>

definition new_ReschedulingRequest :: "reschedule_body \<Rightarrow> ReschedulingRequest" where
  "new_ReschedulingRequest validatedData =
     [''Current_Booking_id'' \<mapsto> Current_Booking_id validatedData,
      ''RequestedDateId'' \<mapsto> RequestedDateId validatedData,
      ''RequestedSlotId'' \<mapsto> RequestedSlotId validatedData]"

definition reschedule :: "env \<Rightarrow> db \<Rightarrow> reschedule_body \<Rightarrow> db \<times> response" where
  "reschedule env st body =
     (case reschedulingRequestSchemaZod env body of
        Inl issues \<Rightarrow> (st, (400, Errors issues))
      | Inr validatedData \<Rightarrow>
          (let newReschedulingRequest = new_ReschedulingRequest validatedData in
           if rejects env (ReschedulingRequest_save newReschedulingRequest) st
           then (st, internal_server_error)
           else (st\<lparr>requests := requests st @ [newReschedulingRequest]\<rparr>,
                 (201, Message ''Rescheduling request created successfully''))))"

section \<open>GET /reschedule-requests/:ExpertId\<close>

text \<open>
  The query populates the three references of every request it finds; the route then
  maps each request to an entry with the populated documents and the expert's
  username. A missing key, or a reference to a document that is gone, populates to
  \<^verbatim>\<open>null\<close>. The filter
  is the one the source writes, on the request's own \<^verbatim>\<open>expertId\<close>.
\<close>

definition formatted_request :: "db \<Rightarrow> Expert \<Rightarrow> ReschedulingRequest \<Rightarrow> formatted" where
  "formatted_request st expert request =
     \<lparr>currentBookingId =
        (case request ''CurrentBookingId'' of None \<Rightarrow> None | Some b \<Rightarrow> bookings st b),
      requestedDateId =
        (case request ''RequestedDateId'' of None \<Rightarrow> None | Some d \<Rightarrow> dates st d),
      requestedSlotId =
        (case request ''RequestedSlotId'' of None \<Rightarrow> None | Some s \<Rightarrow> slots st s),
      expertName = username expert\<rparr>"

definition reschedule_requests_by_expert :: "env \<Rightarrow> db \<Rightarrow> oid \<Rightarrow> response" where
  "reschedule_requests_by_expert env st ExpertId =
     (if rejects env (Expert_findById ExpertId) st then internal_server_error
      else case experts st ExpertId of
        None \<Rightarrow> (404, Message ''Expert not found'')
      | Some expert \<Rightarrow>
          if rejects env (ReschedulingRequest_find ExpertId) st then internal_server_error
          else
            (let found = find_expertId ExpertId (requests st) in
             if length found = 0
             then (404, Message ''No reschedule requests found for this expert'')
             else (200, MessageList ''Rescheduling requests retrieved successfully''
                          (map (formatted_request st expert) found))))"

section \<open>POST /handle-Reschedule\<close>

text \<open>
  The body also carries \<^verbatim>\<open>newDate\<close>, which the handler never reads. The booking is
  looked up first; \<^verbatim>\<open>booking.save()\<close> writes the document back under its id, and
  \<^verbatim>\<open>deleteOne({ CurrentBookingId })\<close> follows it. A rejected \<^verbatim>\<open>await\<close> leaves what was
  written before it.
\<close>

definition handle_Reschedule :: "env \<Rightarrow> db \<Rightarrow> handle_body \<Rightarrow> db \<times> response" where
  "handle_Reschedule env st body =
     (if rejects env (Booking_findById (CurrentBookingId body)) st
      then (st, internal_server_error)
      else case bookings st (CurrentBookingId body) of
        None \<Rightarrow> (st, (404, Message ''Booking not found''))
      | Some booking \<Rightarrow>
          if action body = ''accepted'' then
            if \<not> ObjectId_isValid env (RequestedDateId body)
               \<or> \<not> ObjectId_isValid env (RequestedSlotId body)
            then (st, (400, Message ''Invalid date or slot ID''))
            else
              (let saved = booking\<lparr>dateId := RequestedDateId body,
                                   slotId := RequestedSlotId body,
                                   status := RESCHEDULED\<rparr> in
               if rejects env (Booking_save (CurrentBookingId body) saved) st
               then (st, internal_server_error)
               else
                 (let st1 = st\<lparr>bookings := (bookings st)(CurrentBookingId body \<mapsto> saved)\<rparr> in
                  if rejects env (ReschedulingRequest_deleteOne (CurrentBookingId body)) st1
                  then (st1, internal_server_error)
                  else (st1\<lparr>requests :=
                              deleteOne (references (CurrentBookingId body)) (requests st1)\<rparr>,
                        (200, MessageBooking ''Reschedule request accepted successfully'' saved))))
          else if action body = ''rejected'' then
            if rejects env (ReschedulingRequest_deleteOne (CurrentBookingId body)) st
            then (st, internal_server_error)
            else (st\<lparr>requests :=
                        deleteOne (references (CurrentBookingId body)) (requests st)\<rparr>,
                  (200, Message ''Reschedule request rejected successfully''))
          else (st, (400, Message ''Invalid action'')))"

section \<open>A concrete environment\<close>

text \<open>
  Modelled from the spec: the Zod schema of \<^verbatim>\<open>../schemas/requestReschedule\<close> is not
  among the sources; the spec says that creation "fails with ValidationError if any ID
  is malformed". Here an identifier is well formed when it is 24 hexadecimal digits,
  the textual form of an ObjectId, and no storage call rejects.
\<close>

definition hex24 :: "oid \<Rightarrow> bool" where
  "hex24 s \<longleftrightarrow> length s = 24 \<and> list_all (\<lambda>c. c \<in> set ''0123456789abcdefABCDEF'') s"

definition hex24_schema :: "reschedule_body \<Rightarrow> ZodIssue list + reschedule_body" where
  "hex24_schema body =
     (let issues =
        (if hex24 (Current_Booking_id body) then [] else [([''Current_Booking_id''], ''Invalid id'')]) @
        (if hex24 (RequestedDateId body) then [] else [([''RequestedDateId''], ''Invalid id'')]) @
        (if hex24 (RequestedSlotId body) then [] else [([''RequestedSlotId''], ''Invalid id'')])
      in if issues = [] then Inr body else Inl issues)"

definition plain_env :: env where
  "plain_env =
     \<lparr>reschedulingRequestSchemaZod = hex24_schema,
      ObjectId_isValid = hex24,
      rejects = (\<lambda>call st. False)\<rparr>"

definition B1 :: oid where "B1 = ''64b7f0000000000000000b01''"
definition B2 :: oid where "B2 = ''64b7f0000000000000000b02''"
definition D1 :: oid where "D1 = ''64b7f0000000000000000d01''"
definition D2 :: oid where "D2 = ''64b7f0000000000000000d02''"
definition D3 :: oid where "D3 = ''64b7f0000000000000000d03''"
definition S1 :: oid where "S1 = ''64b7f0000000000000000511''"
definition S5 :: oid where "S5 = ''64b7f0000000000000000515''"
definition S7 :: oid where "S7 = ''64b7f0000000000000000517''"
definition E1 :: oid where "E1 = ''64b7f0000000000000000e01''"
definition E2 :: oid where "E2 = ''64b7f0000000000000000e02''"

definition booking1 :: Booking where
  "booking1 = \<lparr>dateId = D1, slotId = S1, status = CONFIRMED\<rparr>"

definition empty_db :: db where
  "empty_db = \<lparr>bookings = Map.empty, requests = [], experts = Map.empty,
               dates = Map.empty, slots = Map.empty\<rparr>"

definition db1 :: db where
  "db1 = empty_db\<lparr>bookings := [B1 \<mapsto> booking1]\<rparr>"

definition request1 :: ReschedulingRequest where
  "request1 = [''CurrentBookingId'' \<mapsto> B1, ''RequestedDateId'' \<mapsto> D2, ''RequestedSlotId'' \<mapsto> S5]"

definition request3 :: ReschedulingRequest where
  "request3 = [''CurrentBookingId'' \<mapsto> B1, ''RequestedDateId'' \<mapsto> D3, ''RequestedSlotId'' \<mapsto> S7,
               ''expertId'' \<mapsto> E1]"

definition submitted1 :: ReschedulingRequest where
  "submitted1 = [''Current_Booking_id'' \<mapsto> B1, ''RequestedDateId'' \<mapsto> D2, ''RequestedSlotId'' \<mapsto> S5]"

definition submitted2 :: ReschedulingRequest where
  "submitted2 = [''Current_Booking_id'' \<mapsto> B1, ''RequestedDateId'' \<mapsto> D3, ''RequestedSlotId'' \<mapsto> S7]"

definition db2 :: db where
  "db2 = db1\<lparr>requests := [request1]\<rparr>"

definition db3 :: db where
  "db3 = db1\<lparr>requests := [request1, request1]\<rparr>"

definition db5 :: db where
  "db5 = db1\<lparr>requests := [submitted1]\<rparr>"

definition asha :: Expert where
  "asha = \<lparr>username = ''asha''\<rparr>"

definition db4 :: db where
  "db4 = db1\<lparr>requests := [request1, request3], experts := [E1 \<mapsto> asha, E2 \<mapsto> asha]\<rparr>"

definition submission :: "oid \<Rightarrow> oid \<Rightarrow> oid \<Rightarrow> reschedule_body" where
  "submission b d s = \<lparr>RequestedDateId = d, RequestedSlotId = s, Current_Booking_id = b\<rparr>"

definition decision :: "oid \<Rightarrow> oid \<Rightarrow> oid \<Rightarrow> string \<Rightarrow> handle_body" where
  "decision b d s a = \<lparr>RequestedDateId = d, RequestedSlotId = s, CurrentBookingId = b, action = a\<rparr>"

text \<open>
  \<^verbatim>\<open>findById\<close> casts the id it is given to an ObjectId, and the query throws a
  \<^verbatim>\<open>CastError\<close> when the string is not one. In this environment the two lookups by id
  reject exactly the ids that are not 24 hexadecimal digits.
\<close>

definition cast_env :: env where
  "cast_env =
     \<lparr>reschedulingRequestSchemaZod = hex24_schema,
      ObjectId_isValid = hex24,
      rejects = (\<lambda>call st. case call of
                   Booking_findById i \<Rightarrow> \<not> hex24 i
                 | Expert_findById i \<Rightarrow> \<not> hex24 i
                 | _ \<Rightarrow> False)\<rparr>"

section \<open>Facts about \<open>deleteOne\<close>\<close>

lemma deleteOne_no_match: "\<forall>x\<in>set xs. \<not> P x \<Longrightarrow> deleteOne P xs = xs"
  by (induction xs) auto

lemma filter_deleteOne_single:
  "length (filter P xs) \<le> 1 \<Longrightarrow> filter P (deleteOne P xs) = []"
  by (induction xs) (auto split: if_splits)

lemma deleteOne_append_other:
  "\<not> P x \<Longrightarrow> deleteOne P (xs @ [x]) = deleteOne P xs @ [x]"
  by (induction xs) auto

lemma filter_others_deleteOne:
  "filter (\<lambda>x. \<not> P x) (deleteOne P xs) = filter (\<lambda>x. \<not> P x) xs"
  by (induction xs) auto

section \<open>Submitting a request\<close>

text \<open>
  C1. \<^verbatim>\<open>POST /reschedule\<close> does not keep the requests of a booking unique. Its only
  client error, 400, is the schema's verdict on the body, whatever is stored; its
  answers are 201, 400 and 500. A body that the schema accepts, with an insert that the
  storage layer does not reject, is stored after the requests already there, so the
  booking it names has one stored request more than before, however many it had.
\<close>

theorem reschedule_no_uniqueness_check:
  "(fst (snd (reschedule env st body)) = 400 \<longleftrightarrow> isl (reschedulingRequestSchemaZod env body))
   \<and> fst (snd (reschedule env st body)) \<in> {201, 400, 500}
   \<and> (reschedulingRequestSchemaZod env body = Inr v
        \<and> \<not> rejects env (ReschedulingRequest_save (new_ReschedulingRequest v)) st
       \<longrightarrow> reschedule env st body
             = (st\<lparr>requests := requests st @ [new_ReschedulingRequest v]\<rparr>,
                (201, Message ''Rescheduling request created successfully''))
           \<and> length (filter (names_booking (Current_Booking_id v))
                       (requests (fst (reschedule env st body))))
             = Suc (length (filter (names_booking (Current_Booking_id v)) (requests st))))"
  by (auto simp add: reschedule_def Let_def internal_server_error_def names_booking_def
        new_ReschedulingRequest_def split: sum.splits)

theorem reschedule_no_uniqueness_check_witness:
  "hex24_schema (submission B1 D3 S7) = Inr (submission B1 D3 S7)
   \<and> reschedule plain_env db5 (submission B1 D3 S7)
      = (db5\<lparr>requests := [submitted1, submitted2]\<rparr>,
         (201, Message ''Rescheduling request created successfully''))
   \<and> length (filter (names_booking B1)
        (requests (fst (reschedule plain_env db5 (submission B1 D3 S7))))) = 2"
  using reschedule_no_uniqueness_check [of plain_env db5 "submission B1 D3 S7" "submission B1 D3 S7"]
  by (simp add: plain_env_def hex24_schema_def hex24_def submission_def db5_def db1_def
        empty_db_def booking1_def submitted1_def submitted2_def B1_def D1_def D2_def
        D3_def S1_def S5_def S7_def names_booking_def new_ReschedulingRequest_def)

text \<open>
  Booking \<open>B1\<close> has the pending request \<open>submitted1\<close>, stored by an earlier submission. A
  second submission for \<open>B1\<close> is answered 201 and stored: two requests then name the
  booking.
\<close>

theorem reschedule_no_uniqueness_check_counterexample:
  "filter (names_booking B1) (requests db5) = [submitted1]
   \<and> reschedule plain_env db5 (submission B1 D3 S7)
      = (db5\<lparr>requests := [submitted1, submitted2]\<rparr>,
         (201, Message ''Rescheduling request created successfully''))
   \<and> filter (names_booking B1) [submitted1, submitted2] = [submitted1, submitted2]
   \<and> submitted1 \<noteq> submitted2"
proof -
  have "submitted1 ''RequestedDateId'' \<noteq> submitted2 ''RequestedDateId''"
    by (simp add: submitted1_def submitted2_def D2_def D3_def)
  then have differ: "submitted1 \<noteq> submitted2"
    by auto
  have run: "filter (names_booking B1) (requests db5) = [submitted1]
      \<and> reschedule plain_env db5 (submission B1 D3 S7)
          = (db5\<lparr>requests := [submitted1, submitted2]\<rparr>,
             (201, Message ''Rescheduling request created successfully''))
      \<and> filter (names_booking B1) [submitted1, submitted2] = [submitted1, submitted2]"
    by (simp add: plain_env_def hex24_schema_def hex24_def submission_def db5_def db1_def
        empty_db_def booking1_def submitted1_def submitted2_def B1_def D1_def D2_def
        D3_def S1_def S5_def S7_def names_booking_def new_ReschedulingRequest_def reschedule_def Let_def)
  show ?thesis
    using run differ by simp
qed

text \<open>
  C8. \<^verbatim>\<open>POST /reschedule\<close> answers 201 exactly when the schema accepts the body and the
  insert is not rejected; no booking is looked up. Whatever the answer, every booking
  is as before. On 201 the database differs from the one before by the new request,
  built from the validated data and stored last; on any other answer it is unchanged.
\<close>

theorem reschedule_success:
  "(fst (snd (reschedule env st body)) = 201
      \<longleftrightarrow> (\<exists>v. reschedulingRequestSchemaZod env body = Inr v
               \<and> \<not> rejects env (ReschedulingRequest_save (new_ReschedulingRequest v)) st))
   \<and> bookings (fst (reschedule env st body)) = bookings st
   \<and> (fst (snd (reschedule env st body)) = 201
       \<longrightarrow> (\<exists>v. reschedulingRequestSchemaZod env body = Inr v
                \<and> fst (reschedule env st body)
                    = st\<lparr>requests := requests st @ [new_ReschedulingRequest v]\<rparr>))
   \<and> (fst (snd (reschedule env st body)) \<noteq> 201 \<longrightarrow> fst (reschedule env st body) = st)"
  by (auto simp add: reschedule_def Let_def internal_server_error_def split: sum.splits)

theorem reschedule_success_witness:
  "reschedule plain_env db1 (submission B1 D2 S5)
     = (db1\<lparr>requests := [submitted1]\<rparr>,
        (201, Message ''Rescheduling request created successfully''))
   \<and> bookings (fst (reschedule plain_env db1 (submission B1 D2 S5))) = bookings db1
   \<and> reschedule plain_env db1 (submission B1 ''tomorrow'' S5)
     = (db1, (400, Errors [([''RequestedDateId''], ''Invalid id'')]))"
  using reschedule_success [of plain_env db1 "submission B1 D2 S5"]
    reschedule_success [of plain_env db1 "submission B1 ''tomorrow'' S5"]
  by (simp add: plain_env_def hex24_schema_def hex24_def submission_def db1_def empty_db_def
        booking1_def submitted1_def B1_def D1_def D2_def S1_def S5_def new_ReschedulingRequest_def reschedule_def Let_def)

text \<open>
  No booking is stored at all, and the submission for \<open>B1\<close> is answered 201 and stored.
\<close>

theorem reschedule_success_counterexample:
  "bookings empty_db B1 = None
   \<and> reschedule plain_env empty_db (submission B1 D2 S5)
      = (empty_db\<lparr>requests := [submitted1]\<rparr>,
         (201, Message ''Rescheduling request created successfully''))"
  by (simp add: plain_env_def hex24_schema_def hex24_def submission_def empty_db_def
        submitted1_def B1_def D2_def S5_def new_ReschedulingRequest_def reschedule_def Let_def)

section \<open>Decisions on a booking that does not exist\<close>

text \<open>
  C6. A decision whose booking id refers to no stored booking never changes the
  database, and its answer is settled by the booking lookup alone, which comes before
  any other step: 404 "Booking not found" when the lookup returns, which it does for a
  well-formed id on a working store, and 500 when the lookup itself throws, as it does
  on an id that is not an ObjectId. The action, the requested identifiers and every
  other storage call play no part.
\<close>

theorem handle_Reschedule_booking_not_found:
  assumes "bookings st (CurrentBookingId body) = None"
  shows "handle_Reschedule env st body
          = (st, if rejects env (Booking_findById (CurrentBookingId body)) st
                 then internal_server_error
                 else (404, Message ''Booking not found''))"
  using assms by (simp add: handle_Reschedule_def)

theorem handle_Reschedule_booking_not_found_witness:
  "bookings db2 B2 = None
   \<and> hex24 B2
   \<and> handle_Reschedule cast_env db2 (decision B2 D2 S5 ''accepted'')
      = (db2, (404, Message ''Booking not found''))
   \<and> handle_Reschedule plain_env db2 (decision B2 D2 S5 ''accepted'')
      = (db2, (404, Message ''Booking not found''))"
  using handle_Reschedule_booking_not_found [of db2 "decision B2 D2 S5 ''accepted''" cast_env]
    handle_Reschedule_booking_not_found [of db2 "decision B2 D2 S5 ''accepted''" plain_env]
  by (simp add: plain_env_def cast_env_def hex24_schema_def hex24_def decision_def db2_def
        db1_def empty_db_def booking1_def request1_def B1_def B2_def D1_def D2_def
        S1_def S5_def)

text \<open>
  No booking has the id \<open>not-an-id\<close>, which is not an ObjectId: the lookup throws and
  the answer is 500, not 404.
\<close>

theorem handle_Reschedule_booking_not_found_counterexample:
  "bookings db2 ''not-an-id'' = None
   \<and> \<not> hex24 ''not-an-id''
   \<and> handle_Reschedule cast_env db2 (decision ''not-an-id'' D2 S5 ''accepted'')
      = (db2, (500, MessageError ''Internal server error''))
   \<and> fst (snd (handle_Reschedule cast_env db2 (decision ''not-an-id'' D2 S5 ''accepted''))) \<noteq> 404"
  by (simp add: cast_env_def hex24_schema_def hex24_def decision_def db2_def db1_def
        empty_db_def booking1_def request1_def B1_def D1_def D2_def S1_def S5_def internal_server_error_def handle_Reschedule_def)

text \<open>
  C9. The existence check precedes every other validation of the decision: for a
  booking id that refers to no stored booking the answer is the same for every action
  and all requested identifiers, well formed or not. It is 404 "Booking not found" when
  the lookup returns and 500 when the lookup itself throws, as on a booking id that
  is not an ObjectId; it is never one of the 400 answers.
\<close>

theorem handle_Reschedule_lookup_precedes_validation:
  assumes "bookings st b = None"
  shows "snd (handle_Reschedule env st
            \<lparr>RequestedDateId = d, RequestedSlotId = s, CurrentBookingId = b, action = a\<rparr>)
          = (if rejects env (Booking_findById b) st then internal_server_error
             else (404, Message ''Booking not found''))
       \<and> snd (handle_Reschedule env st
            \<lparr>RequestedDateId = d, RequestedSlotId = s, CurrentBookingId = b, action = a\<rparr>)
          \<noteq> (400, Message ''Invalid action'')
       \<and> snd (handle_Reschedule env st
            \<lparr>RequestedDateId = d, RequestedSlotId = s, CurrentBookingId = b, action = a\<rparr>)
          \<noteq> (400, Message ''Invalid date or slot ID'')
       \<and> fst (snd (handle_Reschedule env st
            \<lparr>RequestedDateId = d, RequestedSlotId = s, CurrentBookingId = b, action = a\<rparr>))
          \<noteq> 400"
  using assms by (simp add: handle_Reschedule_def internal_server_error_def)

theorem handle_Reschedule_lookup_precedes_validation_witness:
  "bookings db1 B2 = None
   \<and> hex24 B2 \<and> \<not> hex24 ''tomorrow''
   \<and> snd (handle_Reschedule cast_env db1 (decision B2 ''tomorrow'' ''noon'' ''postpone''))
      = (404, Message ''Booking not found'')
   \<and> snd (handle_Reschedule cast_env db1 (decision B2 ''tomorrow'' ''noon'' ''accepted''))
      = (404, Message ''Booking not found'')"
  using handle_Reschedule_lookup_precedes_validation
      [of db1 B2 cast_env "''tomorrow''" "''noon''" "''postpone''"]
    handle_Reschedule_lookup_precedes_validation
      [of db1 B2 cast_env "''tomorrow''" "''noon''" "''accepted''"]
  by (simp add: cast_env_def hex24_schema_def hex24_def decision_def db1_def empty_db_def
        booking1_def B1_def B2_def D1_def S1_def)

text \<open>
  The booking id \<open>no-such-booking\<close> refers to no booking and is not an ObjectId: with the
  action "postpone" the answer is 500, not 404.
\<close>

theorem handle_Reschedule_lookup_precedes_validation_counterexample:
  "bookings db1 ''no-such-booking'' = None
   \<and> \<not> hex24 ''no-such-booking''
   \<and> snd (handle_Reschedule cast_env db1 (decision ''no-such-booking'' D2 S5 ''postpone''))
      = (500, MessageError ''Internal server error'')
   \<and> fst (snd (handle_Reschedule cast_env db1 (decision ''no-such-booking'' D2 S5 ''postpone'')))
      \<noteq> 404"
  by (simp add: cast_env_def hex24_schema_def hex24_def decision_def db1_def empty_db_def
        booking1_def B1_def D1_def D2_def S1_def S5_def internal_server_error_def handle_Reschedule_def)

section \<open>Decisions on an existing booking\<close>

text \<open>
  C5. A decision whose action is neither "accepted" nor "rejected" never changes the
  database. When its booking exists (and the lookup is not rejected) the answer is
  400 "Invalid action".
\<close>

theorem handle_Reschedule_invalid_action:
  assumes "action body \<noteq> ''accepted''" and "action body \<noteq> ''rejected''"
  shows "fst (handle_Reschedule env st body) = st
       \<and> (\<not> rejects env (Booking_findById (CurrentBookingId body)) st
            \<and> bookings st (CurrentBookingId body) \<noteq> None
          \<longrightarrow> handle_Reschedule env st body = (st, (400, Message ''Invalid action'')))"
  using assms by (auto simp add: handle_Reschedule_def split: option.splits)

theorem handle_Reschedule_invalid_action_witness:
  "''postpone'' \<noteq> ''accepted'' \<and> ''postpone'' \<noteq> ''rejected''
   \<and> bookings db2 B1 \<noteq> None
   \<and> handle_Reschedule plain_env db2 (decision B1 D3 S7 ''postpone'')
      = (db2, (400, Message ''Invalid action''))"
  using handle_Reschedule_invalid_action [of "decision B1 D3 S7 ''postpone''" plain_env db2]
  by (simp add: plain_env_def hex24_schema_def hex24_def decision_def db2_def db1_def empty_db_def
           booking1_def request1_def B1_def D1_def D2_def D3_def S1_def S5_def S7_def
           references_def)

text \<open>
  With the action "postpone" and a booking id that no booking has, the answer is 404,
  not 400.
\<close>

theorem handle_Reschedule_invalid_action_counterexample:
  "action (decision B2 D3 S7 ''postpone'') \<noteq> ''accepted''
   \<and> action (decision B2 D3 S7 ''postpone'') \<noteq> ''rejected''
   \<and> handle_Reschedule plain_env db2 (decision B2 D3 S7 ''postpone'')
      = (db2, (404, Message ''Booking not found''))
   \<and> fst (snd (handle_Reschedule plain_env db2 (decision B2 D3 S7 ''postpone''))) \<noteq> 400"
  by (simp add: plain_env_def hex24_schema_def hex24_def decision_def db2_def db1_def empty_db_def
           booking1_def request1_def B1_def B2_def D1_def D2_def D3_def S1_def S5_def S7_def
           references_def handle_Reschedule_def)

text \<open>
  C2. The route never looks for a pending request. For an existing booking that no
  stored request references, the answer is never 404: "rejected" is answered 200
  "Reschedule request rejected successfully" with the database unchanged, and
  "accepted" with well-formed identifiers is answered 200 with the booking rewritten
  to the identifiers of the call and the status RESCHEDULED, the requests unchanged.
\<close>

theorem handle_Reschedule_no_pending_request:
  assumes "bookings st (CurrentBookingId body) = Some booking"
    and "\<forall>r\<in>set (requests st). \<not> references (CurrentBookingId body) r"
  shows "fst (snd (handle_Reschedule env st body)) \<noteq> 404
       \<and> (action body = ''rejected''
            \<and> \<not> rejects env (Booking_findById (CurrentBookingId body)) st
            \<and> \<not> rejects env (ReschedulingRequest_deleteOne (CurrentBookingId body)) st
          \<longrightarrow> handle_Reschedule env st body
                = (st, (200, Message ''Reschedule request rejected successfully'')))
       \<and> (action body = ''accepted''
            \<and> ObjectId_isValid env (RequestedDateId body)
            \<and> ObjectId_isValid env (RequestedSlotId body)
            \<and> \<not> rejects env (Booking_findById (CurrentBookingId body)) st
            \<and> \<not> rejects env (Booking_save (CurrentBookingId body)
                     (booking\<lparr>dateId := RequestedDateId body, slotId := RequestedSlotId body,
                              status := RESCHEDULED\<rparr>)) st
            \<and> \<not> rejects env (ReschedulingRequest_deleteOne (CurrentBookingId body))
                     (st\<lparr>bookings := (bookings st)(CurrentBookingId body \<mapsto>
                        booking\<lparr>dateId := RequestedDateId body, slotId := RequestedSlotId body,
                                status := RESCHEDULED\<rparr>)\<rparr>)
          \<longrightarrow> handle_Reschedule env st body
                = (st\<lparr>bookings := (bookings st)(CurrentBookingId body \<mapsto>
                        booking\<lparr>dateId := RequestedDateId body, slotId := RequestedSlotId body,
                                status := RESCHEDULED\<rparr>)\<rparr>,
                   (200, MessageBooking ''Reschedule request accepted successfully''
                      (booking\<lparr>dateId := RequestedDateId body, slotId := RequestedSlotId body,
                               status := RESCHEDULED\<rparr>))))"
  using assms
  by (auto simp add: handle_Reschedule_def internal_server_error_def Let_def deleteOne_no_match)

theorem handle_Reschedule_no_pending_request_witness:
  "bookings db1 B1 = Some booking1
   \<and> requests db1 = []
   \<and> handle_Reschedule plain_env db1 (decision B1 D2 S5 ''rejected'')
      = (db1, (200, Message ''Reschedule request rejected successfully''))
   \<and> handle_Reschedule plain_env db1 (decision B1 D2 S5 ''accepted'')
      = (db1\<lparr>bookings := [B1 \<mapsto> \<lparr>dateId = D2, slotId = S5, status = RESCHEDULED\<rparr>]\<rparr>,
         (200, MessageBooking ''Reschedule request accepted successfully''
                 \<lparr>dateId = D2, slotId = S5, status = RESCHEDULED\<rparr>))"
  using handle_Reschedule_no_pending_request
      [of db1 "decision B1 D2 S5 ''rejected''" booking1 plain_env]
    handle_Reschedule_no_pending_request
      [of db1 "decision B1 D2 S5 ''accepted''" booking1 plain_env]
  by (simp add: plain_env_def hex24_schema_def hex24_def decision_def db1_def empty_db_def booking1_def
           B1_def D1_def D2_def S1_def S5_def references_def)

text \<open>
  Booking \<open>B1\<close> exists and no request is stored. The decision "rejected" is answered
  with the success message, and nothing has changed.
\<close>

theorem handle_Reschedule_no_pending_request_counterexample:
  "bookings db1 B1 = Some booking1
   \<and> filter (references B1) (requests db1) = []
   \<and> handle_Reschedule plain_env db1 (decision B1 D2 S5 ''rejected'')
      = (db1, (200, Message ''Reschedule request rejected successfully''))"
  by (simp add: plain_env_def hex24_schema_def hex24_def decision_def db1_def empty_db_def booking1_def
           B1_def D1_def D2_def S1_def S5_def references_def handle_Reschedule_def)

text \<open>
  C3. For an existing booking, the decision "accepted" with well-formed identifiers in
  the call (and no storage call rejected) writes the booking back with \<open>dateId\<close> and
  \<open>slotId\<close> set to the identifiers of the call and the status RESCHEDULED, then deletes
  the first stored request that references the booking, and answers 200 with the
  saved booking. No stored request is read. If at most one stored request referenced
  the booking, none does afterwards; the requests of other bookings stay as they were.
  A request references a booking when it carries it under the key \<^verbatim>\<open>CurrentBookingId\<close>,
  the key of the \<^verbatim>\<open>deleteOne\<close> filter.
\<close>

theorem handle_Reschedule_accepted:
  assumes "bookings st (CurrentBookingId body) = Some booking"
    and "action body = ''accepted''"
    and "ObjectId_isValid env (RequestedDateId body)"
    and "ObjectId_isValid env (RequestedSlotId body)"
    and "saved = booking\<lparr>dateId := RequestedDateId body, slotId := RequestedSlotId body,
                          status := RESCHEDULED\<rparr>"
    and "\<not> rejects env (Booking_findById (CurrentBookingId body)) st"
    and "\<not> rejects env (Booking_save (CurrentBookingId body) saved) st"
    and "\<not> rejects env (ReschedulingRequest_deleteOne (CurrentBookingId body))
             (st\<lparr>bookings := (bookings st)(CurrentBookingId body \<mapsto> saved)\<rparr>)"
  shows "handle_Reschedule env st body
           = (st\<lparr>bookings := (bookings st)(CurrentBookingId body \<mapsto> saved),
                 requests := deleteOne (references (CurrentBookingId body)) (requests st)\<rparr>,
              (200, MessageBooking ''Reschedule request accepted successfully'' saved))
       \<and> (length (filter (references (CurrentBookingId body)) (requests st)) \<le> 1
            \<longrightarrow> filter (references (CurrentBookingId body))
                  (requests (fst (handle_Reschedule env st body))) = [])
       \<and> filter (\<lambda>r. \<not> references (CurrentBookingId body) r)
            (requests (fst (handle_Reschedule env st body)))
          = filter (\<lambda>r. \<not> references (CurrentBookingId body) r) (requests st)"
proof -
  have run: "handle_Reschedule env st body
           = (st\<lparr>bookings := (bookings st)(CurrentBookingId body \<mapsto> saved),
                 requests := deleteOne (references (CurrentBookingId body)) (requests st)\<rparr>,
              (200, MessageBooking ''Reschedule request accepted successfully'' saved))"
    using assms by (simp add: handle_Reschedule_def Let_def)
  show ?thesis
    unfolding run by (simp add: filter_deleteOne_single filter_others_deleteOne)
qed

theorem handle_Reschedule_accepted_witness:
  "bookings db2 B1 = Some booking1
   \<and> hex24 D2 \<and> hex24 S5
   \<and> requests db2 = [request1]
   \<and> handle_Reschedule plain_env db2 (decision B1 D2 S5 ''accepted'')
      = (db2\<lparr>bookings := [B1 \<mapsto> \<lparr>dateId = D2, slotId = S5, status = RESCHEDULED\<rparr>],
             requests := []\<rparr>,
         (200, MessageBooking ''Reschedule request accepted successfully''
                 \<lparr>dateId = D2, slotId = S5, status = RESCHEDULED\<rparr>))"
  using handle_Reschedule_accepted
    [of db2 "decision B1 D2 S5 ''accepted''" booking1 plain_env
        "\<lparr>dateId = D2, slotId = S5, status = RESCHEDULED\<rparr>"]
  by (simp add: plain_env_def hex24_schema_def hex24_def decision_def db2_def db1_def empty_db_def
           booking1_def request1_def B1_def D1_def D2_def S1_def S5_def references_def)

text \<open>
  First, \<open>request1\<close> is the only pending request of \<open>B1\<close> and asks for \<open>D2\<close> and \<open>S5\<close>; the
  accepting call carries \<open>D3\<close> and \<open>S7\<close>, and these are what the booking gets. Second,
  two requests reference \<open>B1\<close>; after the accepting call one of them is still stored.
\<close>

theorem handle_Reschedule_accepted_counterexample:
  "requests db2 = [request1]
   \<and> request1 ''RequestedDateId'' = Some D2 \<and> request1 ''RequestedSlotId'' = Some S5
   \<and> D3 \<noteq> D2 \<and> S7 \<noteq> S5
   \<and> hex24 D3 \<and> hex24 S7
   \<and> handle_Reschedule plain_env db2 (decision B1 D3 S7 ''accepted'')
      = (db2\<lparr>bookings := [B1 \<mapsto> \<lparr>dateId = D3, slotId = S7, status = RESCHEDULED\<rparr>],
             requests := []\<rparr>,
         (200, MessageBooking ''Reschedule request accepted successfully''
                 \<lparr>dateId = D3, slotId = S7, status = RESCHEDULED\<rparr>))
   \<and> requests db3 = [request1, request1]
   \<and> requests (fst (handle_Reschedule plain_env db3 (decision B1 D2 S5 ''accepted'')))
      = [request1]
   \<and> references B1 request1"
  by (simp add: plain_env_def hex24_schema_def hex24_def decision_def db3_def db2_def db1_def
           empty_db_def booking1_def request1_def B1_def D1_def D2_def D3_def S1_def S5_def
           S7_def references_def handle_Reschedule_def Let_def)

text \<open>
  The booking is saved before the request is deleted: when the deletion is rejected,
  the answer is 500 and the booking stays rewritten, the request stored.
\<close>

lemma handle_Reschedule_accepted_delete_rejected:
  assumes "bookings st (CurrentBookingId body) = Some booking"
    and "action body = ''accepted''"
    and "ObjectId_isValid env (RequestedDateId body)"
    and "ObjectId_isValid env (RequestedSlotId body)"
    and "saved = booking\<lparr>dateId := RequestedDateId body, slotId := RequestedSlotId body,
                          status := RESCHEDULED\<rparr>"
    and "\<not> rejects env (Booking_findById (CurrentBookingId body)) st"
    and "\<not> rejects env (Booking_save (CurrentBookingId body) saved) st"
    and "rejects env (ReschedulingRequest_deleteOne (CurrentBookingId body))
             (st\<lparr>bookings := (bookings st)(CurrentBookingId body \<mapsto> saved)\<rparr>)"
  shows "handle_Reschedule env st body
           = (st\<lparr>bookings := (bookings st)(CurrentBookingId body \<mapsto> saved)\<rparr>,
              internal_server_error)"
  using assms by (simp add: handle_Reschedule_def Let_def)

section \<open>Submitting and then rejecting\<close>

text \<open>
  C4. A submission that is stored (answer 201), followed by the decision "rejected" for
  its booking, an existing one: neither step changes any booking, so the booking is
  exactly as before the submission, and the decision is answered 200. The submitted
  request is not deleted: it is stored under the key \<^verbatim>\<open>Current_Booking_id\<close>, the filter of
  \<^verbatim>\<open>deleteOne\<close> reads the key \<^verbatim>\<open>CurrentBookingId\<close> and does not match it. What the
  decision deletes is the first request stored before that carries the booking under
  \<^verbatim>\<open>CurrentBookingId\<close>, if there is one.
\<close>

theorem submit_then_reject:
  assumes "reschedulingRequestSchemaZod env body = Inr v"
    and "\<not> rejects env (ReschedulingRequest_save (new_ReschedulingRequest v)) st"
    and "reschedule env st body = (st1, r1)"
    and "bookings st (Current_Booking_id v) = Some booking"
    and "CurrentBookingId decided = Current_Booking_id v"
    and "action decided = ''rejected''"
    and "\<not> rejects env (Booking_findById (Current_Booking_id v)) st1"
    and "\<not> rejects env (ReschedulingRequest_deleteOne (Current_Booking_id v)) st1"
    and "handle_Reschedule env st1 decided = (st2, r2)"
  shows "r1 = (201, Message ''Rescheduling request created successfully'')
       \<and> r2 = (200, Message ''Reschedule request rejected successfully'')
       \<and> bookings st1 = bookings st
       \<and> bookings st2 = bookings st
       \<and> requests st1 = requests st @ [new_ReschedulingRequest v]
       \<and> requests st2
          = deleteOne (references (Current_Booking_id v)) (requests st) @ [new_ReschedulingRequest v]
       \<and> new_ReschedulingRequest v \<in> set (requests st2)
       \<and> \<not> references (Current_Booking_id v) (new_ReschedulingRequest v)"
proof -
  let ?b = "Current_Booking_id v"
  let ?new = "new_ReschedulingRequest v"
  have new: "\<not> references ?b ?new"
    by (simp add: references_def new_ReschedulingRequest_def)
  have s1: "st1 = st\<lparr>requests := requests st @ [?new]\<rparr>"
    and r1: "r1 = (201, Message ''Rescheduling request created successfully'')"
    using assms(1-3) by (simp_all add: reschedule_def Let_def)
  have found: "bookings st1 (CurrentBookingId decided) = Some booking"
    using assms(4,5) s1 by simp
  have s2: "st2 = st1\<lparr>requests := deleteOne (references ?b) (requests st1)\<rparr>"
    and r2: "r2 = (200, Message ''Reschedule request rejected successfully'')"
    using assms(5-9) found by (simp_all add: handle_Reschedule_def)
  have kept: "requests st2 = deleteOne (references ?b) (requests st) @ [?new]"
    using new by (simp add: s1 s2 deleteOne_append_other)
  show ?thesis
    using r1 r2 new kept by (simp add: s1 s2)
qed

theorem submit_then_reject_witness:
  "hex24_schema (submission B1 D2 S5) = Inr (submission B1 D2 S5)
   \<and> bookings db1 B1 = Some booking1
   \<and> requests db1 = []
   \<and> reschedule plain_env db1 (submission B1 D2 S5)
      = (db5, (201, Message ''Rescheduling request created successfully''))
   \<and> handle_Reschedule plain_env db5 (decision B1 D2 S5 ''rejected'')
      = (db5, (200, Message ''Reschedule request rejected successfully''))
   \<and> requests db5 = [submitted1]
   \<and> bookings db5 = bookings db1"
  using submit_then_reject
    [of plain_env "submission B1 D2 S5" "submission B1 D2 S5" db1
        "fst (reschedule plain_env db1 (submission B1 D2 S5))"
        "snd (reschedule plain_env db1 (submission B1 D2 S5))"
        booking1 "decision B1 D2 S5 ''rejected''"
        "fst (handle_Reschedule plain_env db5 (decision B1 D2 S5 ''rejected''))"
        "snd (handle_Reschedule plain_env db5 (decision B1 D2 S5 ''rejected''))"]
  by (simp add: plain_env_def hex24_schema_def hex24_def submission_def decision_def db5_def
        db1_def empty_db_def booking1_def submitted1_def B1_def D1_def D2_def S1_def
        S5_def references_def new_ReschedulingRequest_def reschedule_def
        handle_Reschedule_def Let_def)

section \<open>Requests by expert\<close>

text \<open>
  C7. The by-expert query has two different 404 answers. For an expert id that matches
  no expert the answer is "Expert not found" when the lookup returns, which it does
  for a well-formed id on a working store; when the lookup itself throws, as on an id
  that is not an ObjectId, the answer is 500. For an existing expert with no stored
  request carrying the expert's id the answer is "No reschedule requests found for
  this expert". The answers differ, so the caller can tell the cases apart.
\<close>

theorem by_expert_not_found_distinct:
  assumes "experts st e = None"
    and "\<not> rejects env (Expert_findById e') st'"
    and "experts st' e' = Some expert"
    and "\<not> rejects env (ReschedulingRequest_find e') st'"
    and "find_expertId e' (requests st') = []"
  shows "reschedule_requests_by_expert env st e
          = (if rejects env (Expert_findById e) st then internal_server_error
             else (404, Message ''Expert not found''))
       \<and> reschedule_requests_by_expert env st' e'
          = (404, Message ''No reschedule requests found for this expert'')
       \<and> (404, Message ''Expert not found'')
          \<noteq> (404::nat, Message ''No reschedule requests found for this expert'')
       \<and> reschedule_requests_by_expert env st e \<noteq> reschedule_requests_by_expert env st' e'"
  using assms by (simp add: reschedule_requests_by_expert_def internal_server_error_def)

theorem by_expert_not_found_distinct_witness:
  "experts db4 B2 = None \<and> hex24 B2 \<and> experts db4 E2 = Some asha
   \<and> find_expertId E2 (requests db4) = []
   \<and> reschedule_requests_by_expert cast_env db4 B2 = (404, Message ''Expert not found'')
   \<and> reschedule_requests_by_expert cast_env db4 E2
      = (404, Message ''No reschedule requests found for this expert'')"
  using by_expert_not_found_distinct [of db4 B2 cast_env E2 db4 asha]
  by (simp add: cast_env_def hex24_schema_def hex24_def db4_def db1_def empty_db_def
        booking1_def asha_def request1_def request3_def B1_def B2_def D1_def D2_def
        D3_def S1_def S5_def S7_def E1_def E2_def expertId_def find_expertId_def)

text \<open>
  No expert has the id \<open>nobody\<close>, which is not an ObjectId: the lookup throws and the
  answer is 500, not the 404 "Expert not found".
\<close>

theorem by_expert_not_found_distinct_counterexample:
  "experts db4 ''nobody'' = None
   \<and> \<not> hex24 ''nobody''
   \<and> reschedule_requests_by_expert cast_env db4 ''nobody''
      = (500, MessageError ''Internal server error'')
   \<and> reschedule_requests_by_expert cast_env db4 ''nobody'' \<noteq> (404, Message ''Expert not found'')"
  by (simp add: cast_env_def hex24_schema_def hex24_def db4_def db1_def empty_db_def
        booking1_def asha_def request1_def request3_def B1_def D1_def D2_def D3_def
        S1_def S5_def S7_def E1_def E2_def internal_server_error_def reschedule_requests_by_expert_def)

text \<open>
  C10. The by-expert query selects by the \<open>expertId\<close> stored on the request itself. For
  an existing expert the answer is built from exactly the stored requests whose own
  \<open>expertId\<close> is the given id, in their stored order: 404 when there is none, else 200
  with one entry for each. A stored request without the field is selected for no
  expert. The bookings play no part in the selection.
\<close>

theorem by_expert_selects_own_expertId:
  assumes "\<not> rejects env (Expert_findById e) st"
    and "experts st e = Some expert"
    and "\<not> rejects env (ReschedulingRequest_find e) st"
  shows "reschedule_requests_by_expert env st e
          = (if filter (\<lambda>r. expertId r = Some e) (requests st) = []
             then (404, Message ''No reschedule requests found for this expert'')
             else (200, MessageList ''Rescheduling requests retrieved successfully''
                     (map (formatted_request st expert) (filter (\<lambda>r. expertId r = Some e) (requests st)))))
       \<and> set (find_expertId e (requests st)) = {r \<in> set (requests st). expertId r = Some e}
       \<and> (\<forall>r. expertId r = None \<longrightarrow> r \<notin> set (find_expertId e (requests st)))"
  using assms by (auto simp add: reschedule_requests_by_expert_def find_expertId_def Let_def)

theorem by_expert_selects_own_expertId_witness:
  "experts db4 E1 = Some asha
   \<and> requests db4 = [request1, request3]
   \<and> expertId request1 = None \<and> expertId request3 = Some E1
   \<and> request1 ''CurrentBookingId'' = request3 ''CurrentBookingId''
   \<and> reschedule_requests_by_expert plain_env db4 E1
      = (200, MessageList ''Rescheduling requests retrieved successfully''
           [\<lparr>currentBookingId = Some booking1, requestedDateId = None, requestedSlotId = None,
             expertName = ''asha''\<rparr>])
   \<and> find_expertId E1 (requests db4) = [request3]"
  using by_expert_selects_own_expertId [of plain_env E1 db4 asha]
  by (simp add: plain_env_def hex24_schema_def hex24_def db4_def db1_def empty_db_def
        booking1_def asha_def request1_def request3_def B1_def D1_def D2_def D3_def
        S1_def S5_def S7_def E1_def E2_def expertId_def find_expertId_def formatted_request_def)

end
